theory Spec2Isabelle
  imports Complex_Main
begin

section \<open>Python values as the recognizer returns them\<close>

text \<open>
  A Python \<open>str\<close> is a sequence of Unicode code points; it is modelled as the list of
  its code points. \<open>ustr\<close> turns an ASCII literal into such a list.
\<close>

type_synonym pystr = "nat list"

definition ustr :: "string \<Rightarrow> pystr" where
  "ustr s = map of_char s"

text \<open>
  The result of \<open>ocr.ocr(img_array)\<close> is dynamically typed. \<open>pyval\<close> covers the
  JSON-like values the code tests for (\<open>None\<close>, \<open>bool\<close>, \<open>int\<close>, \<open>float\<close>, \<open>str\<close>,
  \<open>list\<close>, \<open>tuple\<close>, \<open>dict\<close> with string keys, in insertion order) and \<open>PObject\<close>, a
  value of any other type, which is not subscriptable and carries the outcome of its
  truth test and of \<open>float()\<close> on it (\<open>None\<close>: the call raises). Python floats are
  idealised as reals.
\<close>

datatype pyval =
    PNone
  | PBool bool
  | PInt int
  | PFloat real
  | PStr pystr
  | PList "pyval list"
  | PTuple "pyval list"
  | PDict "(pystr \<times> pyval) list"
  | PObject "bool option" "real option"

text \<open>\<open>str.isspace\<close> for one code point: the Unicode white space characters.\<close>

definition py_isspace :: "nat \<Rightarrow> bool" where
  "py_isspace c \<longleftrightarrow>
     (9 \<le> c \<and> c \<le> 13) \<or> (28 \<le> c \<and> c \<le> 32) \<or> c = 133 \<or> c = 160 \<or> c = 5760 \<or>
     (8192 \<le> c \<and> c \<le> 8202) \<or> c = 8232 \<or> c = 8233 \<or> c = 8239 \<or> c = 8287 \<or> c = 12288"

text \<open>\<open>s.strip()\<close>: leading and trailing white space removed.\<close>

definition py_strip :: "pystr \<Rightarrow> pystr" where
  "py_strip s = rev (dropWhile py_isspace (rev (dropWhile py_isspace s)))"

text \<open>\<open>sep.join(xs)\<close>.\<close>

fun py_join :: "pystr \<Rightarrow> pystr list \<Rightarrow> pystr" where
  "py_join sep [] = []"
| "py_join sep [x] = x"
| "py_join sep (x # y # ys) = x @ sep @ py_join sep (y # ys)"

text \<open>The truth test \<open>bool(v)\<close>; \<open>None\<close> when it raises.\<close>

fun py_truth :: "pyval \<Rightarrow> bool option" where
  "py_truth PNone = Some False"
| "py_truth (PBool b) = Some b"
| "py_truth (PInt i) = Some (i \<noteq> 0)"
| "py_truth (PFloat r) = Some (r \<noteq> 0)"
| "py_truth (PStr s) = Some (s \<noteq> [])"
| "py_truth (PList xs) = Some (xs \<noteq> [])"
| "py_truth (PTuple xs) = Some (xs \<noteq> [])"
| "py_truth (PDict d) = Some (d \<noteq> [])"
| "py_truth (PObject t f) = t"

text \<open>
  \<open>v[0]\<close>; \<open>None\<close> when it raises (IndexError on an empty sequence, KeyError on a
  mapping with string keys, TypeError on a value that is not subscriptable).
\<close>

fun py_item0 :: "pyval \<Rightarrow> pyval option" where
  "py_item0 (PList (x # xs)) = Some x"
| "py_item0 (PTuple (x # xs)) = Some x"
| "py_item0 (PStr (c # cs)) = Some (PStr [c])"
| "py_item0 v = None"

text \<open>
  \<open>isinstance(v, (list, tuple))\<close> together with the elements: \<open>Some xs\<close> for a list or
  a tuple, \<open>None\<close> for anything else.
\<close>

fun seq_items :: "pyval \<Rightarrow> pyval list option" where
  "seq_items (PList xs) = Some xs"
| "seq_items (PTuple xs) = Some xs"
| "seq_items v = None"

text \<open>
  \<open>str(v)\<close> is the string itself on a \<open>str\<close>; what it prints for any other value is the
  parameter \<open>S\<close>. \<open>float(v)\<close> is fixed on numbers; parsing a string is the parameter
  \<open>F\<close> (\<open>None\<close>: ValueError); on \<open>None\<close>, lists, tuples and mappings it raises.
\<close>

fun py_str :: "(pyval \<Rightarrow> pystr) \<Rightarrow> pyval \<Rightarrow> pystr" where
  "py_str S (PStr s) = s"
| "py_str S v = S v"

fun py_float :: "(pystr \<Rightarrow> real option) \<Rightarrow> pyval \<Rightarrow> real option" where
  "py_float F (PFloat r) = Some r"
| "py_float F (PInt i) = Some (of_int i)"
| "py_float F (PBool b) = Some (if b then 1 else 0)"
| "py_float F (PStr s) = F s"
| "py_float F (PObject t f) = f"
| "py_float F v = None"

section \<open>The result normalizer of \<open>run_paddle_ocr\<close> (paddle_client.py)\<close>

text \<open>The keys tried on a keyed-mapping result, in this order.\<close>

definition possible_keys :: "pystr list" where
  "possible_keys =
     [ustr ''text'', ustr ''texts'', ustr ''rec_text'', ustr ''rec_texts'', ustr ''results'']"

text \<open>
  Strategy 1, the loop \<open>for item in data\<close> over the list under the first key found.
  \<open>tx\<close> and \<open>cf\<close> are the lists \<open>text_lines\<close> and \<open>confidences\<close>. This loop is not inside a
  per-item \<open>try\<close>: \<open>float(item[1])\<close> raising ends the whole parse (\<open>None\<close>).
\<close>

fun dict_items_loop ::
  "(pyval \<Rightarrow> pystr) \<Rightarrow> (pystr \<Rightarrow> real option) \<Rightarrow> pyval list \<Rightarrow> pystr list \<Rightarrow> real list
     \<Rightarrow> (pystr list \<times> real list) option" where
  "dict_items_loop S F [] tx cf = Some (tx, cf)"
| "dict_items_loop S F (item # rest) tx cf =
     (case item of
        PStr s \<Rightarrow> dict_items_loop S F rest (tx @ [s]) (cf @ [1])
      | _ \<Rightarrow>
         (case seq_items item of
            Some (i0 # i1 # more) \<Rightarrow>
              (case py_float F i1 of
                 None \<Rightarrow> None
               | Some c \<Rightarrow> dict_items_loop S F rest (tx @ [py_str S i0]) (cf @ [c]))
          | _ \<Rightarrow> dict_items_loop S F rest tx cf))"

text \<open>The value found under a key: a list of items, a single string, or anything else.\<close>

definition dict_data ::
  "(pyval \<Rightarrow> pystr) \<Rightarrow> (pystr \<Rightarrow> real option) \<Rightarrow> pyval \<Rightarrow> (pystr list \<times> real list) option" where
  "dict_data S F data =
     (case data of
        PList items \<Rightarrow> dict_items_loop S F items [] []
      | PStr s \<Rightarrow> Some ([s], [1])
      | _ \<Rightarrow> Some ([], []))"

text \<open>
  \<open>for possible_key in [...]: if possible_key in first_item: ...; break\<close>: only the
  first key present is read.
\<close>

fun dict_keys_loop ::
  "(pyval \<Rightarrow> pystr) \<Rightarrow> (pystr \<Rightarrow> real option) \<Rightarrow> (pystr \<times> pyval) list \<Rightarrow> pystr list
     \<Rightarrow> (pystr list \<times> real list) option" where
  "dict_keys_loop S F d [] = Some ([], [])"
| "dict_keys_loop S F d (k # ks) =
     (case map_of d k of
        Some data \<Rightarrow> dict_data S F data
      | None \<Rightarrow> dict_keys_loop S F d ks)"

text \<open>
  Strategy 2, one line of the list shape. \<open>None\<close> is every way the loop body leaves
  the accumulators alone: \<open>continue\<close>, a line of another form, text that is empty or
  white space, and an exception, which the per-line \<open>except\<close> turns into \<open>continue\<close>.
\<close>

definition accept_line :: "pystr \<Rightarrow> real \<Rightarrow> (pystr \<times> real) option" where
  "accept_line text conf = (if text \<noteq> [] \<and> py_strip text \<noteq> [] then Some (text, conf) else None)"

definition parse_line ::
  "(pyval \<Rightarrow> pystr) \<Rightarrow> (pystr \<Rightarrow> real option) \<Rightarrow> pyval \<Rightarrow> (pystr \<times> real) option" where
  "parse_line S F line =
     (case py_truth line of
        None \<Rightarrow> None
      | Some False \<Rightarrow> None
      | Some True \<Rightarrow>
         (case seq_items line of
            Some (bbox # text_data # more) \<Rightarrow>
              (case seq_items text_data of
                 Some (t # c # more') \<Rightarrow>
                   (case py_float F c of
                      None \<Rightarrow> None
                    | Some conf \<Rightarrow> accept_line (py_str S t) conf)
               | _ \<Rightarrow>
                  (case text_data of
                     PStr s \<Rightarrow> accept_line s 1
                   | _ \<Rightarrow> None))
          | _ \<Rightarrow> None))"

fun list_lines_loop ::
  "(pyval \<Rightarrow> pystr) \<Rightarrow> (pystr \<Rightarrow> real option) \<Rightarrow> pyval list \<Rightarrow> pystr list \<Rightarrow> real list
     \<Rightarrow> pystr list \<times> real list" where
  "list_lines_loop S F [] tx cf = (tx, cf)"
| "list_lines_loop S F (line # rest) tx cf =
     (case parse_line S F line of
        Some (text, conf) \<Rightarrow> list_lines_loop S F rest (tx @ [text]) (cf @ [conf])
      | None \<Rightarrow> list_lines_loop S F rest tx cf)"

text \<open>
  The end of the parse: nothing extracted gives \<open>("", 0.0)\<close>, otherwise the lines
  joined by a newline and \<open>sum(confidences) / len(confidences)\<close>.
\<close>

definition finish_parse :: "pystr list \<times> real list \<Rightarrow> pystr \<times> real" where
  "finish_parse p =
     (case p of (tx, cf) \<Rightarrow>
        if tx = [] then ([], 0)
        else (py_join [10] tx, if cf \<noteq> [] then sum_list cf / real (length cf) else 0))"

text \<open>
  The body of the outer \<open>try\<close> from \<open>if not result\<close> on. \<open>None\<close> is an exception
  reaching the outer \<open>except Exception\<close>. Logging has no effect on the value.
\<close>

definition parse_result ::
  "(pyval \<Rightarrow> pystr) \<Rightarrow> (pystr \<Rightarrow> real option) \<Rightarrow> pyval \<Rightarrow> (pystr \<times> real) option" where
  "parse_result S F result =
     (case py_truth result of
        None \<Rightarrow> None
      | Some False \<Rightarrow> Some ([], 0)
      | Some True \<Rightarrow>
         (case py_item0 result of
            None \<Rightarrow> None
          | Some first_item \<Rightarrow>
             (case py_truth first_item of
                None \<Rightarrow> None
              | Some False \<Rightarrow> Some ([], 0)
              | Some True \<Rightarrow>
                 (case first_item of
                    PDict d \<Rightarrow> map_option finish_parse (dict_keys_loop S F d possible_keys)
                  | PList ls \<Rightarrow> Some (finish_parse (list_lines_loop S F ls [] []))
                  | PTuple ls \<Rightarrow> Some (finish_parse (list_lines_loop S F ls [] []))
                  | _ \<Rightarrow> Some ([], 0)))))"

section \<open>\<open>run_paddle_ocr\<close> and \<open>run_paddle_ocr_multi_lang\<close> (paddle_client.py)\<close>

text \<open>
  Language codes are ASCII identifiers and are kept as \<open>string\<close>.
  \<open>PaddleOCRClient.get_instance\<close> first normalises the code; the normalised code is
  the key of the recognizer instance.
\<close>

definition instance_key :: "string \<Rightarrow> string" where
  "instance_key lang =
     (if lang \<in> set [''hin'', ''hindi'', ''hi''] then ''hindi''
      else if lang \<in> set [''eng+hin'', ''hin+eng'', ''bilingual'', ''multilingual''] then ''multilingual''
      else if lang \<in> set [''eng'', ''en''] then ''en''
      else lang)"

text \<open>
  What happens between \<open>get_instance(lang)\<close> and \<open>result = ocr.ocr(img_array)\<close>: the
  recognizer is built or taken from the cache, the image is converted and padded, and
  the recognizer runs. Any of these may raise; otherwise there is a result.
\<close>

datatype engine_reply = EngineRaises | EngineReturns pyval

record 'img ocr_env =
  recognise :: "string \<Rightarrow> 'img \<Rightarrow> engine_reply"
  str_of :: "pyval \<Rightarrow> pystr"
  float_of_str :: "pystr \<Rightarrow> real option"

text \<open>
  \<open>run_paddle_ocr(pil_image, lang)\<close>. A \<open>None\<close> image and every exception inside the
  outer \<open>try\<close> give \<open>("", 0.0)\<close>.
\<close>

definition run_paddle_ocr :: "'img ocr_env \<Rightarrow> 'img option \<Rightarrow> string \<Rightarrow> pystr \<times> real" where
  "run_paddle_ocr E pil_image lang =
     (case pil_image of
        None \<Rightarrow> ([], 0)
      | Some img \<Rightarrow>
         (case recognise E (instance_key lang) img of
            EngineRaises \<Rightarrow> ([], 0)
          | EngineReturns result \<Rightarrow>
             (case parse_result (str_of E) (float_of_str E) result of
                None \<Rightarrow> ([], 0)
              | Some p \<Rightarrow> p)))"

text \<open>
  The loop of \<open>run_paddle_ocr_multi_lang\<close> with its two variables \<open>best_text\<close> and
  \<open>best_conf\<close>.
\<close>

fun multi_lang_loop ::
  "'img ocr_env \<Rightarrow> 'img option \<Rightarrow> string list \<Rightarrow> pystr \<Rightarrow> real \<Rightarrow> pystr \<times> real" where
  "multi_lang_loop E pil_image [] best_text best_conf = (best_text, best_conf)"
| "multi_lang_loop E pil_image (lang # rest) best_text best_conf =
     (case run_paddle_ocr E pil_image lang of (text, conf) \<Rightarrow>
        if conf > best_conf \<and> py_strip text \<noteq> []
        then multi_lang_loop E pil_image rest text conf
        else multi_lang_loop E pil_image rest best_text best_conf)"

definition default_langs :: "string list" where
  "default_langs = [''hindi'', ''multilingual'', ''en'']"

definition run_paddle_ocr_multi_lang ::
  "'img ocr_env \<Rightarrow> 'img option \<Rightarrow> string list option \<Rightarrow> pystr \<times> real" where
  "run_paddle_ocr_multi_lang E pil_image langs =
     multi_lang_loop E pil_image (case langs of None \<Rightarrow> default_langs | Some ls \<Rightarrow> ls) [] 0"

section \<open>\<open>run_ocr\<close> (ocr_engine.py)\<close>

text \<open>
  \<open>langs.lower()\<close> on the ASCII letters. A code with a character outside ASCII is not
  a key of \<open>lang_map\<close> before or after lowering, so such characters are left alone.
\<close>

definition lower_char :: "char \<Rightarrow> char" where
  "lower_char c =
     (case map_of (zip ''ABCDEFGHIJKLMNOPQRSTUVWXYZ'' ''abcdefghijklmnopqrstuvwxyz'') c of
        Some l \<Rightarrow> l
      | None \<Rightarrow> c)"

definition py_lower :: "string \<Rightarrow> string" where
  "py_lower s = map lower_char s"

definition lang_map :: "(string \<times> string) list" where
  "lang_map =
     [(''eng'', ''en''), (''en'', ''en''),
      (''hin'', ''hindi''), (''hindi'', ''hindi''), (''hi'', ''hindi''),
      (''eng+hin'', ''multilingual''), (''hin+eng'', ''multilingual''),
      (''bilingual'', ''multilingual''), (''multilingual'', ''multilingual'')]"

definition paddle_lang :: "string \<Rightarrow> string" where
  "paddle_lang langs =
     (case map_of lang_map (py_lower langs) of Some l \<Rightarrow> l | None \<Rightarrow> ''multilingual'')"

definition run_ocr :: "'img ocr_env \<Rightarrow> 'img option \<Rightarrow> string \<Rightarrow> pystr \<times> real" where
  "run_ocr E pil_image langs =
     (case pil_image of
        None \<Rightarrow> ([], 0)
      | Some img \<Rightarrow>
         (case run_paddle_ocr E pil_image (paddle_lang langs) of (text, confidence) \<Rightarrow>
            if text = [] \<or> py_strip text = [] then
              (if paddle_lang langs = ''multilingual''
               then run_paddle_ocr_multi_lang E pil_image None
               else (text, confidence))
            else (text, confidence)))"

section \<open>The capture backends (capture.py)\<close>

text \<open>
  A rectangle as MSS takes it and as it lists its monitors: a mapping with the keys
  \<open>left\<close>, \<open>top\<close>, \<open>width\<close>, \<open>height\<close>. Python integers are unbounded: \<open>int\<close>.
\<close>

record region =
  r_left :: int
  r_top :: int
  r_width :: int
  r_height :: int

text \<open>
  A \<open>QRect\<close> stores its two corners; \<open>width()\<close> is \<open>x2 - x1 + 1\<close> and the rectangle is
  null when width and height are both 0. PySide's truth test of a \<open>QRect\<close> is
  \<open>not isNull()\<close>.
\<close>

record qrect =
  qx1 :: int
  qy1 :: int
  qx2 :: int
  qy2 :: int

definition qrect_x :: "qrect \<Rightarrow> int" where "qrect_x r = qx1 r"
definition qrect_y :: "qrect \<Rightarrow> int" where "qrect_y r = qy1 r"
definition qrect_width :: "qrect \<Rightarrow> int" where "qrect_width r = qx2 r - qx1 r + 1"
definition qrect_height :: "qrect \<Rightarrow> int" where "qrect_height r = qy2 r - qy1 r + 1"
definition qrect_isNull :: "qrect \<Rightarrow> bool" where
  "qrect_isNull r \<longleftrightarrow> qx2 r = qx1 r - 1 \<and> qy2 r = qy1 r - 1"

text \<open>
  What \<open>sct.grab(region)\<close> does: it raises, returns a false value, or returns a
  screenshot with its own size and pixel bytes.
\<close>

record screenshot =
  ss_size :: "int \<times> int"
  ss_rgb :: "nat list"

datatype grab_result = GrabRaises | GrabNone | GrabShot screenshot

record mss_session =
  monitors :: "region list"
  grab :: "region \<Rightarrow> grab_result"

text \<open>
  \<open>import mss\<close> may fail; \<open>mss.mss()\<close> or listing the monitors may raise; otherwise
  there is a session.
\<close>

datatype mss_state = MssNotInstalled | MssRaises | MssOpen mss_session

text \<open>
  A Qt screen: its geometry, its device pixel ratio, and \<open>grabWindow(0, x, y, w, h)\<close>
  followed by the conversion to a PIL image (\<open>None\<close>: an exception or a null pixmap).
\<close>

record 'img screen =
  geometry :: qrect
  devicePixelRatio :: real
  grabWindow :: "int \<Rightarrow> int \<Rightarrow> int \<Rightarrow> int \<Rightarrow> 'img option"

text \<open>
  The display system around one capture call. \<open>screenAt\<close> is
  \<open>QGuiApplication.screenAt\<close> with the index of the screen found in
  \<open>QGuiApplication.screens()\<close>. \<open>frombytes\<close> is \<open>Image.frombytes("RGB", size, rgb)\<close>
  on a screenshot (\<open>None\<close>: it raises). \<open>dxcam\<close> is \<open>None\<close> when the module is not
  installed; otherwise it takes the monitor index and the region \<open>(left, top, right,
  bottom)\<close> and gives the upscaled image, or \<open>None\<close> when no camera is created, the grab
  returns \<open>None\<close>, or anything raises.
\<close>

record 'img capture_env =
  screenAt :: "int \<Rightarrow> int \<Rightarrow> (nat \<times> 'img screen) option"
  mss :: mss_state
  frombytes :: "screenshot \<Rightarrow> 'img option"
  dxcam :: "(nat \<Rightarrow> int \<times> int \<times> int \<times> int \<Rightarrow> 'img option) option"

datatype backend = MSS | DXCAM | QT

subsection \<open>\<open>_try_mss_capture_debug\<close>\<close>

text \<open>
  The requests reach \<open>capture_region\<close> as Python integers, on which
  \<open>int(round(x))\<close> is \<open>x\<close>; \<open>w_i\<close> and \<open>h_i\<close> are \<open>max(1, ...)\<close>.
\<close>

definition mss_global_region :: "int \<Rightarrow> int \<Rightarrow> int \<Rightarrow> int \<Rightarrow> region" where
  "mss_global_region x y w h =
     (let x_i = x; y_i = y; w_i = max 1 w; h_i = max 1 h
      in \<lparr>r_left = x_i, r_top = y_i, r_width = w_i, r_height = h_i\<rparr>)"

text \<open>
  The first \<open>try\<close>: \<open>Some img\<close> is \<open>return img\<close>; \<open>None\<close> goes on to the per-monitor
  fallback (the grab raised or was false, or \<open>Image.frombytes\<close> raised). Both branches
  of the size test return the converted image.
\<close>

definition mss_global_grab :: "'img capture_env \<Rightarrow> mss_session \<Rightarrow> int \<Rightarrow> int \<Rightarrow> int \<Rightarrow> int \<Rightarrow> 'img option" where
  "mss_global_grab E sct x y w h =
     (let w_i = max 1 w; h_i = max 1 h
      in case grab sct (mss_global_region x y w h) of
           GrabRaises \<Rightarrow> None
         | GrabNone \<Rightarrow> None
         | GrabShot sct_img \<Rightarrow>
             if fst (ss_size sct_img) = w_i \<and> snd (ss_size sct_img) = h_i
             then frombytes E sct_img
             else frombytes E sct_img)"

text \<open>The search for the monitor that contains \<open>(x_i, y_i)\<close>; entry 0 is skipped.\<close>

fun find_monitor :: "nat \<Rightarrow> region list \<Rightarrow> int \<Rightarrow> int \<Rightarrow> nat option" where
  "find_monitor i [] x_i y_i = None"
| "find_monitor i (mon # rest) x_i y_i =
     (if i \<noteq> 0 \<and> r_left mon \<le> x_i \<and> x_i < r_left mon + r_width mon
         \<and> r_top mon \<le> y_i \<and> y_i < r_top mon + r_height mon
      then Some i
      else find_monitor (Suc i) rest x_i y_i)"

definition chosen_idx :: "region list \<Rightarrow> int \<Rightarrow> int \<Rightarrow> nat" where
  "chosen_idx mons x_i y_i =
     (case find_monitor 0 mons x_i y_i of
        Some i \<Rightarrow> i
      | None \<Rightarrow> if length mons > 1 then 1 else 0)"

text \<open>The region of the fallback grab, relative to the chosen monitor.\<close>

definition mss_capture_region :: "region \<Rightarrow> int \<Rightarrow> int \<Rightarrow> int \<Rightarrow> int \<Rightarrow> region" where
  "mss_capture_region mon x y w h =
     (let x_i = x; y_i = y; w_i = max 1 w; h_i = max 1 h;
          rel_x = x_i - r_left mon;
          rel_y = y_i - r_top mon
      in \<lparr>r_left = r_left mon + rel_x, r_top = r_top mon + rel_y, r_width = w_i, r_height = h_i\<rparr>)"

text \<open>
  The fallback. \<open>sct.monitors[chosen_idx]\<close> raises on an empty monitor list, which
  the outer \<open>except\<close> turns into \<open>None\<close>.
\<close>

definition mss_fallback_grab :: "'img capture_env \<Rightarrow> mss_session \<Rightarrow> int \<Rightarrow> int \<Rightarrow> int \<Rightarrow> int \<Rightarrow> 'img option" where
  "mss_fallback_grab E sct x y w h =
     (let i = chosen_idx (monitors sct) x y
      in if i < length (monitors sct) then
           (case grab sct (mss_capture_region (monitors sct ! i) x y w h) of
              GrabRaises \<Rightarrow> None
            | GrabNone \<Rightarrow> None
            | GrabShot sct_img \<Rightarrow> frombytes E sct_img)
         else None)"

definition try_mss_capture :: "'img capture_env \<Rightarrow> int \<Rightarrow> int \<Rightarrow> int \<Rightarrow> int \<Rightarrow> 'img option" where
  "try_mss_capture E x y w h =
     (case mss E of
        MssNotInstalled \<Rightarrow> None
      | MssRaises \<Rightarrow> None
      | MssOpen sct \<Rightarrow>
         (case mss_global_grab E sct x y w h of
            Some img \<Rightarrow> Some img
          | None \<Rightarrow> mss_fallback_grab E sct x y w h))"

subsection \<open>\<open>_try_dxcam_capture_debug\<close> and \<open>_try_qt_capture_debug\<close>\<close>

text \<open>\<open>int(r)\<close> on a float: truncation towards zero.\<close>

definition py_int :: "real \<Rightarrow> int" where
  "py_int r = (if 0 \<le> r then \<lfloor>r\<rfloor> else \<lceil>r\<rceil>)"

definition try_dxcam_capture ::
  "'img capture_env \<Rightarrow> int \<Rightarrow> int \<Rightarrow> int \<Rightarrow> int \<Rightarrow> nat \<Rightarrow> real \<Rightarrow> 'img option" where
  "try_dxcam_capture E x y w h monitor_idx dpr =
     (case dxcam E of
        None \<Rightarrow> None
      | Some cam \<Rightarrow>
         (let phys_x = py_int (of_int x * dpr);
              phys_y = py_int (of_int y * dpr);
              phys_w = py_int (of_int w * dpr);
              phys_h = py_int (of_int h * dpr)
          in cam monitor_idx (phys_x, phys_y, phys_x + phys_w, phys_y + phys_h)))"

definition try_qt_capture :: "int \<Rightarrow> int \<Rightarrow> int \<Rightarrow> int \<Rightarrow> 'img screen \<Rightarrow> qrect \<Rightarrow> 'img option" where
  "try_qt_capture x y w h scr screen_geo =
     (let local_x = x - qrect_x screen_geo;
          local_y = y - qrect_y screen_geo;
          w1 = (if local_x < 0 then max 0 (w - (- local_x)) else w);
          local_x1 = (if local_x < 0 then 0 else local_x);
          h1 = (if local_y < 0 then max 0 (h - (- local_y)) else h);
          local_y1 = (if local_y < 0 then 0 else local_y);
          w2 = min w1 (qrect_width screen_geo - local_x1);
          h2 = min h1 (qrect_height screen_geo - local_y1)
      in if w2 \<le> 0 \<or> h2 \<le> 0 then None
         else grabWindow scr local_x1 local_y1 w2 h2)"

subsection \<open>\<open>capture_region\<close>\<close>

text \<open>
  \<open>test_point_detection(x, y)\<close>: the index and the screen that Qt reports for the
  point, with the screen's geometry.
\<close>

definition test_point_detection ::
  "'img capture_env \<Rightarrow> int \<Rightarrow> int \<Rightarrow> (nat \<times> 'img screen \<times> qrect) option" where
  "test_point_detection E x y =
     (case screenAt E x y of
        Some (idx, scr) \<Rightarrow> Some (idx, scr, geometry scr)
      | None \<Rightarrow> None)"

text \<open>
  \<open>capture_region(x, y, w, h)\<close>. The value is the image returned (\<open>None\<close> for Python's
  \<open>None\<close>) with the list of the backends that were called, in the order of the calls.
  The result of the dxcam call is assigned to \<open>img\<close> and overwritten by the Qt call
  without being tested.
\<close>

definition capture_region ::
  "'img capture_env \<Rightarrow> int \<Rightarrow> int \<Rightarrow> int \<Rightarrow> int \<Rightarrow> 'img option \<times> backend list" where
  "capture_region E x y w h =
     (if w \<le> 0 \<or> h \<le> 0 then (None, [])
      else
        (case test_point_detection E x y of
           None \<Rightarrow> (None, [])
         | Some (idx, scr, screen_geo) \<Rightarrow>
            if qrect_isNull screen_geo then (None, [])
            else
              (let dpr = devicePixelRatio scr
               in case try_mss_capture E x y w h of
                    Some img \<Rightarrow> (Some img, [MSS])
                  | None \<Rightarrow>
                     (let img1 = try_dxcam_capture E x y w h idx dpr;
                          img2 = try_qt_capture x y w h scr screen_geo
                      in case img2 of
                           Some img \<Rightarrow> (Some img, [MSS, DXCAM, QT])
                         | None \<Rightarrow> (None, [MSS, DXCAM, QT])))))"

section \<open>The selection overlay (overlay.py)\<close>

datatype mouse_button = LeftButton | RightButton | MiddleButton

text \<open>
  The fields of \<open>SelectionOverlay\<close> that \<open>mouseReleaseEvent\<close> reads and writes.
  \<open>scheduled\<close> lists the rectangles for which
  \<open>QTimer.singleShot(120, ... on_selection_made(r))\<close> has been issued.
\<close>

record overlay =
  start_global :: "int \<times> int"
  end_global :: "int \<times> int"
  dragging :: bool
  visible :: bool
  parent_window :: bool
  scheduled :: "qrect list"

text \<open>\<open>QRect(topLeft, bottomRight)\<close>.\<close>

definition QRect :: "int \<times> int \<Rightarrow> int \<times> int \<Rightarrow> qrect" where
  "QRect p q = \<lparr>qx1 = fst p, qy1 = snd p, qx2 = fst q, qy2 = snd q\<rparr>"

text \<open>
  \<open>mouseReleaseEvent\<close>. \<open>normalized\<close> is \<open>QRect.normalized\<close> of the Qt library, taken
  as a parameter.
\<close>

definition mouseReleaseEvent :: "(qrect \<Rightarrow> qrect) \<Rightarrow> overlay \<Rightarrow> mouse_button \<Rightarrow> overlay" where
  "mouseReleaseEvent normalized ov button =
     (if \<not> dragging ov \<or> button \<noteq> LeftButton then ov
      else
        (let ov1 = ov\<lparr>dragging := False\<rparr>;
             rect = normalized (QRect (start_global ov1) (end_global ov1))
         in if qrect_width rect < 10 \<or> qrect_height rect < 10 then ov1
            else
              (let ov2 = ov1\<lparr>visible := False\<rparr>
               in if parent_window ov2 then ov2\<lparr>scheduled := scheduled ov2 @ [rect]\<rparr>
                  else ov2)))"

section \<open>Notions used to state the properties\<close>

text \<open>The test \<open>isinstance(v, dict)\<close>.\<close>

fun is_dict :: "pyval \<Rightarrow> bool" where
  "is_dict (PDict d) = True"
| "is_dict v = False"

text \<open>
  A per-line entry of the list shape read as the pair \<open>(bbox, (text, score))\<close>: a list
  or tuple of two elements whose second is a list or tuple of a string and a float.
  \<open>accepted\<close> keeps, in order, the entries whose text is not empty or white space.
\<close>

definition entry_of :: "pyval \<Rightarrow> (pystr \<times> real) option" where
  "entry_of line =
     (case seq_items line of
        Some [bbox, text_data] \<Rightarrow>
          (case seq_items text_data of
             Some [PStr t, PFloat s] \<Rightarrow> Some (t, s)
           | _ \<Rightarrow> None)
      | _ \<Rightarrow> None)"

definition accepted :: "pyval list \<Rightarrow> (pystr \<times> real) list" where
  "accepted lines = filter (\<lambda>e. py_strip (fst e) \<noteq> []) (List.map_filter entry_of lines)"

text \<open>
  The attempts of the multi-language loop, one per language in order, and those of
  them whose stripped text is not empty and whose confidence exceeds \<open>b\<close>.
\<close>

definition langs_tried :: "string list option \<Rightarrow> string list" where
  "langs_tried langs = (case langs of None \<Rightarrow> default_langs | Some ls \<Rightarrow> ls)"

definition attempts :: "'img ocr_env \<Rightarrow> 'img option \<Rightarrow> string list \<Rightarrow> (pystr \<times> real) list" where
  "attempts E pil_image ls = map (run_paddle_ocr E pil_image) ls"

definition candidates :: "real \<Rightarrow> (pystr \<times> real) list \<Rightarrow> (pystr \<times> real) list" where
  "candidates b as = filter (\<lambda>a. py_strip (fst a) \<noteq> [] \<and> snd a > b) as"

text \<open>
  A chain that returns the first success, as a specification: the first outcome in
  the list that is not a failure.
\<close>

fun first_success :: "'a option list \<Rightarrow> 'a option" where
  "first_success [] = None"
| "first_success (None # rest) = first_success rest"
| "first_success (Some v # rest) = Some v"

subsection \<open>Concrete inputs\<close>

text \<open>Three lines in the list shape; the second is white space only.\<close>

definition example_lines :: "pyval list" where
  "example_lines =
     [PList [PNone, PTuple [PStr (ustr ''foo''), PFloat (9/10)]],
      PList [PNone, PTuple [PStr (ustr ''  ''), PFloat (1/2)]],
      PList [PNone, PTuple [PStr (ustr ''bar''), PFloat (7/10)]]]"

text \<open>A list-shaped result with the single line \<open>[None, (t, s)]\<close>.\<close>

definition line_result :: "string \<Rightarrow> real \<Rightarrow> pyval" where
  "line_result t s = PList [PList [PList [PNone, PTuple [PStr (ustr t), PFloat s]]]]"

text \<open>A recognizer whose result holds the integer 5 where a page is expected.\<close>

definition unknown_shape_env :: "unit ocr_env" where
  "unknown_shape_env =
     \<lparr>recognise = (\<lambda>key img. EngineReturns (PList [PInt 5])),
      str_of = (\<lambda>v. []), float_of_str = (\<lambda>s. None)\<rparr>"

text \<open>A recognizer that reads \<open>abc\<close> with score 0.0 for every language.\<close>

definition zero_conf_env :: "unit ocr_env" where
  "zero_conf_env =
     \<lparr>recognise = (\<lambda>key img. EngineReturns (line_result ''abc'' 0)),
      str_of = (\<lambda>v. []), float_of_str = (\<lambda>s. None)\<rparr>"

text \<open>
  A recognizer that finds nothing with the English model, \<open>abc\<close> with score 0.9 with
  the Hindi instance and \<open>abc\<close> with score 0.5 otherwise.
\<close>

definition two_lang_env :: "unit ocr_env" where
  "two_lang_env =
     \<lparr>recognise = (\<lambda>key img. if key = ''en'' then EngineReturns (PList [])
                             else if key = ''hindi'' then EngineReturns (line_result ''abc'' (9/10))
                             else EngineReturns (line_result ''abc'' (1/2))),
      str_of = (\<lambda>v. []), float_of_str = (\<lambda>s. None)\<rparr>"

text \<open>
  A recognizer that finds nothing with the multilingual instance, \<open>abc\<close> with score
  0.9 with the Hindi instance and \<open>abc\<close> with score 0.5 with the English one.
\<close>

definition multilingual_empty_env :: "unit ocr_env" where
  "multilingual_empty_env =
     \<lparr>recognise = (\<lambda>key img. if key = ''multilingual'' then EngineReturns (PList [])
                             else if key = ''hindi'' then EngineReturns (line_result ''abc'' (9/10))
                             else EngineReturns (line_result ''abc'' (1/2))),
      str_of = (\<lambda>v. []), float_of_str = (\<lambda>s. None)\<rparr>"

text \<open>One 1920 x 1080 screen at the origin.\<close>

definition full_hd :: qrect where
  "full_hd = \<lparr>qx1 = 0, qy1 = 0, qx2 = 1919, qy2 = 1079\<rparr>"

text \<open>A display where MSS is not installed, dxcam delivers image 7 and Qt fails.\<close>

definition dxcam_only_env :: "nat capture_env" where
  "dxcam_only_env =
     \<lparr>screenAt = (\<lambda>x y. Some (0, \<lparr>geometry = full_hd, devicePixelRatio = 1,
                                    grabWindow = (\<lambda>x y w h. None)\<rparr>)),
      mss = MssNotInstalled,
      frombytes = (\<lambda>s. None),
      dxcam = Some (\<lambda>idx r. Some 7)\<rparr>"

text \<open>A display where MSS is not installed, dxcam delivers image 7 and Qt image 3.\<close>

definition qt_only_env :: "nat capture_env" where
  "qt_only_env =
     \<lparr>screenAt = (\<lambda>x y. Some (0, \<lparr>geometry = full_hd, devicePixelRatio = 1,
                                    grabWindow = (\<lambda>x y w h. Some 3)\<rparr>)),
      mss = MssNotInstalled,
      frombytes = (\<lambda>s. None),
      dxcam = Some (\<lambda>idx r. Some 7)\<rparr>"

text \<open>
  A display on which Qt finds no screen at any point, while MSS would deliver a
  screenshot.
\<close>

definition no_screen_env :: "screenshot capture_env" where
  "no_screen_env =
     \<lparr>screenAt = (\<lambda>x y. None),
      mss = MssOpen \<lparr>monitors = [], grab = (\<lambda>r. GrabShot \<lparr>ss_size = (100, 50), ss_rgb = []\<rparr>)\<rparr>,
      frombytes = (\<lambda>s. Some s),
      dxcam = None\<rparr>"

text \<open>
  A display scaled by 1.5 on which every MSS grab returns 150 x 75 pixels; the image
  built from a screenshot is the screenshot itself.
\<close>

definition scaled_shot :: screenshot where
  "scaled_shot = \<lparr>ss_size = (150, 75), ss_rgb = replicate (3 * 150 * 75) 255\<rparr>"

definition scaling_session :: mss_session where
  "scaling_session =
     \<lparr>monitors = [\<lparr>r_left = 0, r_top = 0, r_width = 1920, r_height = 1080\<rparr>,
                  \<lparr>r_left = 0, r_top = 0, r_width = 1920, r_height = 1080\<rparr>],
      grab = (\<lambda>r. GrabShot scaled_shot)\<rparr>"

definition scaling_env :: "screenshot capture_env" where
  "scaling_env =
     \<lparr>screenAt = (\<lambda>x y. Some (0, \<lparr>geometry = full_hd, devicePixelRatio = 3/2,
                                    grabWindow = (\<lambda>x y w h. None)\<rparr>)),
      mss = MssOpen scaling_session,
      frombytes = (\<lambda>s. Some s),
      dxcam = None\<rparr>"

text \<open>A drag of 6 by 201 units, released over an overlay that has a parent window.\<close>

definition small_drag :: overlay where
  "small_drag =
     \<lparr>start_global = (100, 100), end_global = (105, 300), dragging = True, visible = True,
      parent_window = True, scheduled = []\<rparr>"

section \<open>The result normalizer\<close>

lemma py_strip_Nil: "py_strip [] = []"
  by (simp add: py_strip_def)

lemma strip_abc: "py_strip (ustr ''abc'') = ustr ''abc''"
  by (simp add: py_strip_def py_isspace_def ustr_def)

lemma ustr_abc_ne: "ustr ''abc'' \<noteq> []"
  by (simp add: ustr_def)

lemma parse_result_empty_list: "parse_result S F (PList []) = Some ([], 0)"
  by (simp add: parse_result_def)

lemma entry_of_pair:
  "entry_of (PList [bbox, PTuple [PStr t, PFloat s]]) = Some (t, s)"
  by (simp add: entry_of_def)

text \<open>On a well-formed entry the loop body accepts the line unless its text is blank.\<close>

lemma entry_of_parse_line:
  assumes "entry_of line = Some (t, s)"
  shows "parse_line S F line = (if py_strip t \<noteq> [] then Some (t, s) else None)"
proof -
  from assms obtain bbox td where l: "seq_items line = Some [bbox, td]"
    and td: "seq_items td = Some [PStr t, PFloat s]"
    by (auto simp: entry_of_def split: option.splits list.splits pyval.splits)
  from l have tr: "py_truth line = Some True"
    by (cases line) auto
  show ?thesis
    using l td tr py_strip_Nil by (auto simp: parse_line_def accept_line_def)
qed

lemma list_lines_loop_entries:
  assumes "\<forall>l\<in>set lines. entry_of l \<noteq> None"
  shows "list_lines_loop S F lines tx cf =
           (tx @ map fst (accepted lines), cf @ map snd (accepted lines))"
  using assms
proof (induction lines arbitrary: tx cf)
  case Nil
  show ?case by (simp add: accepted_def)
next
  case (Cons l ls)
  then obtain t s where e: "entry_of l = Some (t, s)" by auto
  have acc: "accepted (l # ls) = (if py_strip t \<noteq> [] then (t, s) # accepted ls else accepted ls)"
    using e by (simp add: accepted_def)
  show ?case
    using Cons e acc by (simp add: entry_of_parse_line)
qed

lemma accepted_example:
  "accepted example_lines = [(ustr ''foo'', 9/10), (ustr ''bar'', 7/10)]"
  by (simp add: accepted_def example_lines_def entry_of_pair py_strip_def py_isspace_def ustr_def)

lemma parse_line_result:
  assumes "py_strip (ustr t) \<noteq> []"
  shows "parse_result S F (line_result t s) = Some (ustr t, s)"
proof -
  have e: "parse_line S F (PList [PNone, PTuple [PStr (ustr t), PFloat s]]) = Some (ustr t, s)"
    using assms by (simp add: entry_of_parse_line [OF entry_of_pair])
  show ?thesis
    by (simp add: line_result_def parse_result_def e finish_parse_def)
qed

text \<open>
  C5. For a list-shaped result whose lines are all \<open>(bbox, (text, score))\<close> pairs, the
  normalizer returns the texts of the lines that are not empty or white space, in
  their order, joined by newlines, with the arithmetic mean of the scores of those
  lines; when no line is kept the result is the empty text with confidence 0.
\<close>

theorem list_shape_normalized:
  assumes "seq_items first_item = Some lines"
    and "\<forall>l\<in>set lines. entry_of l \<noteq> None"
  shows "parse_result S F (PList (first_item # rest)) =
           Some (if accepted lines = [] then ([], 0)
                 else (py_join [10] (map fst (accepted lines)),
                       sum_list (map snd (accepted lines)) / real (length (accepted lines))))"
proof -
  have fin: "finish_parse (list_lines_loop S F lines [] []) =
      (if accepted lines = [] then ([], 0)
       else (py_join [10] (map fst (accepted lines)),
             sum_list (map snd (accepted lines)) / real (length (accepted lines))))"
    using assms(2) by (simp add: list_lines_loop_entries finish_parse_def)
  show ?thesis
  proof (cases "lines = []")
    case True
    with assms(1) show ?thesis
      by (cases first_item) (auto simp: parse_result_def accepted_def)
  next
    case False
    with assms(1) fin show ?thesis
      by (cases first_item) (auto simp: parse_result_def)
  qed
qed

text \<open>
  The three lines \<open>foo\<close> (0.9), two spaces (0.5) and \<open>bar\<close> (0.7) give \<open>foo\<close> and \<open>bar\<close>
  joined by a newline, with confidence 0.8.
\<close>

theorem list_shape_normalized_witness:
  "seq_items (PList example_lines) = Some example_lines
   \<and> map entry_of example_lines
       = [Some (ustr ''foo'', 9/10), Some (ustr ''  '', 1/2), Some (ustr ''bar'', 7/10)]
   \<and> parse_result (\<lambda>v. []) (\<lambda>s. None) (PList [PList example_lines])
       = Some (ustr ''foo\<newline>bar'', 4/5)"
proof -
  have h1: "seq_items (PList example_lines) = Some example_lines" by simp
  have h2: "\<forall>l\<in>set example_lines. entry_of l \<noteq> None"
    by (simp add: example_lines_def entry_of_pair del: not_None_eq)
  have e: "map entry_of example_lines
       = [Some (ustr ''foo'', 9/10), Some (ustr ''  '', 1/2), Some (ustr ''bar'', 7/10)]"
    by (simp add: example_lines_def entry_of_pair)
  have p: "parse_result (\<lambda>v. []) (\<lambda>s. None) (PList [PList example_lines])
       = Some (ustr ''foo\<newline>bar'', 4/5)"
    using list_shape_normalized [OF h1 h2, of "\<lambda>v. []" "\<lambda>s. None" "[]"]
    by (simp add: accepted_example ustr_def)
  from h1 e p show ?thesis by blast
qed

text \<open>
  C9. A result whose first element is the mapping \<open>{"text": ["a", "b"]}\<close> is
  normalized to the text \<open>a\<close>, newline, \<open>b\<close> with confidence exactly 1.
\<close>

theorem keyed_mapping_a_b:
  "parse_result S F
     (PList (PDict [(ustr ''text'', PList [PStr (ustr ''a''), PStr (ustr ''b'')])] # rest))
   = Some (ustr ''a\<newline>b'', 1)"
  by (simp add: parse_result_def possible_keys_def dict_data_def finish_parse_def ustr_def)

text \<open>
  C3. On the keyed mapping \<open>{"text": [""]}\<close> the normalizer, and with it
  \<open>run_paddle_ocr\<close>, returns the empty text with confidence 1: the keyed-mapping
  strategy appends bare strings without the test for empty text that the list
  strategy makes.
\<close>

theorem keyed_mapping_empty_string_conf_one:
  "parse_result S F (PList [PDict [(ustr ''text'', PList [PStr []])]]) = Some ([], 1)
   \<and> run_paddle_ocr
        \<lparr>recognise = (\<lambda>key img. EngineReturns (PList [PDict [(ustr ''text'', PList [PStr []])]])),
         str_of = S, float_of_str = F\<rparr> (Some img) lang = ([], 1)"
  by (simp add: run_paddle_ocr_def parse_result_def possible_keys_def dict_data_def
      finish_parse_def ustr_def)

text \<open>
  C7. When the first element of the recognizer's result is neither a mapping nor a
  list or tuple, \<open>run_paddle_ocr\<close> returns the empty text with confidence 0; no
  exception leaves it.
\<close>

theorem unknown_shape_gives_empty:
  assumes "recognise E (instance_key lang) img = EngineReturns result"
    and "py_item0 result = Some first_item"
    and "\<not> is_dict first_item"
    and "seq_items first_item = None"
  shows "run_paddle_ocr E (Some img) lang = ([], 0)"
proof -
  have "parse_result (str_of E) (float_of_str E) result = None
        \<or> parse_result (str_of E) (float_of_str E) result = Some ([], 0)"
    using assms(2-4)
    by (cases first_item) (auto simp: parse_result_def split: option.splits bool.splits)
  with assms(1) show ?thesis
    by (auto simp: run_paddle_ocr_def)
qed

theorem unknown_shape_gives_empty_witness:
  "recognise unknown_shape_env (instance_key ''en'') () = EngineReturns (PList [PInt 5])
   \<and> py_item0 (PList [PInt 5]) = Some (PInt 5)
   \<and> \<not> is_dict (PInt 5)
   \<and> seq_items (PInt 5) = None
   \<and> run_paddle_ocr unknown_shape_env (Some ()) ''en'' = ([], 0)"
proof -
  have h1: "recognise unknown_shape_env (instance_key ''en'') () = EngineReturns (PList [PInt 5])"
    by (simp add: unknown_shape_env_def)
  have h2: "py_item0 (PList [PInt 5]) = Some (PInt 5)" by simp
  have h3: "\<not> is_dict (PInt 5)" by simp
  have h4: "seq_items (PInt 5) = None" by simp
  show ?thesis
    using h1 h2 h3 h4 unknown_shape_gives_empty [OF h1 h2 h3 h4] by simp
qed

section \<open>The recognition dispatcher\<close>

text \<open>
  The invariant of the multi-language loop, for any starting \<open>best_text\<close> and
  \<open>best_conf\<close>: with no attempt above \<open>best_conf\<close> the pair is unchanged; otherwise
  the result is one of the attempts above it and no such attempt has a higher
  confidence.
\<close>

lemma multi_lang_loop_best:
  "(candidates bc (attempts E img ls) = [] \<longrightarrow> multi_lang_loop E img ls bt bc = (bt, bc))
   \<and> (candidates bc (attempts E img ls) \<noteq> [] \<longrightarrow>
        multi_lang_loop E img ls bt bc \<in> set (candidates bc (attempts E img ls))
        \<and> (\<forall>a\<in>set (candidates bc (attempts E img ls)). snd a \<le> snd (multi_lang_loop E img ls bt bc)))"
proof (induction ls arbitrary: bt bc)
  case Nil
  show ?case by (simp add: candidates_def attempts_def)
next
  case (Cons l ls)
  obtain t c where r: "run_paddle_ocr E img l = (t, c)" by (cases "run_paddle_ocr E img l")
  show ?case
  proof (cases "c > bc \<and> py_strip t \<noteq> []")
    case True
    then have loop: "multi_lang_loop E img (l # ls) bt bc = multi_lang_loop E img ls t c"
      using r by simp
    have cand: "candidates bc (attempts E img (l # ls)) = (t, c) # candidates bc (attempts E img ls)"
      using r True by (simp add: candidates_def attempts_def)
    have sub: "set (candidates c (attempts E img ls)) \<subseteq> set (candidates bc (attempts E img ls))"
      using True by (auto simp: candidates_def)
    have low: "\<And>a. a \<in> set (candidates bc (attempts E img ls)) \<Longrightarrow>
                 a \<notin> set (candidates c (attempts E img ls)) \<Longrightarrow> snd a \<le> c"
      by (auto simp: candidates_def)
    show ?thesis
    proof (cases "candidates c (attempts E img ls) = []")
      case True
      with Cons.IH [of c t] have "multi_lang_loop E img ls t c = (t, c)" by simp
      with loop cand low True show ?thesis by auto
    next
      case False
      with Cons.IH [of c t] have
        mem: "multi_lang_loop E img ls t c \<in> set (candidates c (attempts E img ls))" and
        mx: "\<forall>a\<in>set (candidates c (attempts E img ls)). snd a \<le> snd (multi_lang_loop E img ls t c)"
        by simp_all
      from mem have gt: "c < snd (multi_lang_loop E img ls t c)"
        by (auto simp: candidates_def)
      have "\<forall>a\<in>set (candidates bc (attempts E img ls)). snd a \<le> snd (multi_lang_loop E img ls t c)"
      proof
        fix a assume a: "a \<in> set (candidates bc (attempts E img ls))"
        show "snd a \<le> snd (multi_lang_loop E img ls t c)"
        proof (cases "a \<in> set (candidates c (attempts E img ls))")
          case True with mx show ?thesis by simp
        next
          case False with low [OF a] gt show ?thesis by simp
        qed
      qed
      with loop cand mem sub gt show ?thesis by auto
    qed
  next
    case False
    then have loop: "multi_lang_loop E img (l # ls) bt bc = multi_lang_loop E img ls bt bc"
      using r by auto
    have cand: "candidates bc (attempts E img (l # ls)) = candidates bc (attempts E img ls)"
      using r False by (auto simp: candidates_def attempts_def)
    show ?thesis using Cons.IH [of bc bt] loop cand by simp
  qed
qed

lemma zero_conf_attempts:
  "attempts zero_conf_env (Some ()) [''en''] = [(ustr ''abc'', 0)]"
  by (simp add: attempts_def run_paddle_ocr_def zero_conf_env_def parse_line_result strip_abc
      ustr_abc_ne)

lemma two_lang_attempts:
  "attempts two_lang_env (Some ()) default_langs
     = [(ustr ''abc'', 9/10), (ustr ''abc'', 1/2), ([], 0)]"
  by (simp add: attempts_def default_langs_def run_paddle_ocr_def two_lang_env_def instance_key_def
      parse_line_result strip_abc ustr_abc_ne parse_result_empty_list)

lemma two_lang_primary_en: "run_paddle_ocr two_lang_env (Some ()) ''en'' = ([], 0)"
  by (simp add: run_paddle_ocr_def two_lang_env_def instance_key_def parse_result_empty_list)

lemma two_lang_multi:
  "run_paddle_ocr_multi_lang two_lang_env (Some ()) None = (ustr ''abc'', 9/10)"
  using two_lang_attempts
  by (simp add: attempts_def default_langs_def run_paddle_ocr_multi_lang_def strip_abc
      ustr_abc_ne py_strip_Nil)

lemma paddle_lang_eng: "paddle_lang ''eng'' = ''en''"
  by (simp add: paddle_lang_def lang_map_def py_lower_def lower_char_def)

lemma paddle_lang_eng_hin: "paddle_lang ''eng+hin'' = ''multilingual''"
  by (simp add: paddle_lang_def lang_map_def py_lower_def lower_char_def)

lemma multilingual_empty_primary:
  "run_paddle_ocr multilingual_empty_env (Some ()) ''multilingual'' = ([], 0)"
  by (simp add: run_paddle_ocr_def multilingual_empty_env_def instance_key_def
      parse_result_empty_list)

lemma multilingual_empty_multi:
  "run_paddle_ocr_multi_lang multilingual_empty_env (Some ()) None = (ustr ''abc'', 9/10)"
  by (simp add: run_paddle_ocr_multi_lang_def default_langs_def run_paddle_ocr_def
      multilingual_empty_env_def instance_key_def parse_line_result parse_result_empty_list
      strip_abc ustr_abc_ne py_strip_Nil)

text \<open>
  C4, as stated, fails: the only attempt reads \<open>abc\<close>, which is not empty after
  stripping, with confidence 0.0, and the fallback returns the empty text with
  confidence 0.0, which is none of the attempts with non-empty text.
\<close>

theorem multi_lang_zero_conf_counterexample:
  "attempts zero_conf_env (Some ()) [''en''] = [(ustr ''abc'', 0)]
   \<and> py_strip (ustr ''abc'') \<noteq> []
   \<and> run_paddle_ocr_multi_lang zero_conf_env (Some ()) (Some [''en'']) = ([], 0)
   \<and> run_paddle_ocr_multi_lang zero_conf_env (Some ()) (Some [''en''])
       \<notin> set (filter (\<lambda>a. py_strip (fst a) \<noteq> []) (attempts zero_conf_env (Some ()) [''en'']))"
  using zero_conf_attempts
  by (simp add: attempts_def run_paddle_ocr_multi_lang_def strip_abc ustr_abc_ne
      ustr_abc_ne [symmetric])

text \<open>
  C4, amended. For every image and every list of languages (the default list when
  none is given), the multi-language fallback returns one of the attempts whose text
  is not empty after stripping and whose confidence is greater than 0, and no such
  attempt has a higher confidence; when there is no such attempt it returns the
  empty text with confidence 0. It always returns a pair.
\<close>

theorem multi_lang_best_positive:
  "(candidates 0 (attempts E img (langs_tried langs)) = [] \<longrightarrow>
       run_paddle_ocr_multi_lang E img langs = ([], 0))
   \<and> (candidates 0 (attempts E img (langs_tried langs)) \<noteq> [] \<longrightarrow>
       run_paddle_ocr_multi_lang E img langs \<in> set (candidates 0 (attempts E img (langs_tried langs)))
       \<and> (\<forall>a\<in>set (candidates 0 (attempts E img (langs_tried langs))).
             snd a \<le> snd (run_paddle_ocr_multi_lang E img langs)))"
  using multi_lang_loop_best [of 0 E img "langs_tried langs" "[]"]
  by (simp add: run_paddle_ocr_multi_lang_def langs_tried_def)

theorem multi_lang_best_positive_witness:
  "candidates 0 (attempts two_lang_env (Some ()) (langs_tried None))
     = [(ustr ''abc'', 9/10), (ustr ''abc'', 1/2)]
   \<and> run_paddle_ocr_multi_lang two_lang_env (Some ()) None = (ustr ''abc'', 9/10)
   \<and> candidates 0 (attempts zero_conf_env (Some ()) (langs_tried (Some [''en'']))) = []
   \<and> run_paddle_ocr_multi_lang zero_conf_env (Some ()) (Some [''en'']) = ([], 0)"
proof -
  have c: "candidates 0 (attempts two_lang_env (Some ()) (langs_tried None))
             = [(ustr ''abc'', 9/10), (ustr ''abc'', 1/2)]"
    by (simp add: langs_tried_def two_lang_attempts candidates_def strip_abc ustr_abc_ne py_strip_Nil)
  have "run_paddle_ocr_multi_lang two_lang_env (Some ()) None
          \<in> {(ustr ''abc'', 9/10), (ustr ''abc'', 1/2)}
        \<and> 9/10 \<le> snd (run_paddle_ocr_multi_lang two_lang_env (Some ()) None)"
    using multi_lang_best_positive [of two_lang_env "Some ()" None] by (simp add: c)
  then have r: "run_paddle_ocr_multi_lang two_lang_env (Some ()) None = (ustr ''abc'', 9/10)"
    by auto
  have z: "candidates 0 (attempts zero_conf_env (Some ()) (langs_tried (Some [''en'']))) = []"
    by (simp add: langs_tried_def zero_conf_attempts candidates_def)
  have "run_paddle_ocr_multi_lang zero_conf_env (Some ()) (Some [''en'']) = ([], 0)"
    using multi_lang_best_positive [of zero_conf_env "Some ()" "Some [''en'']"] z by simp
  with c r z show ?thesis by simp
qed

text \<open>
  C2, as stated, fails for the English-only profile: the primary attempt is empty,
  the fallback list would have found \<open>abc\<close>, and \<open>run_ocr\<close> returns the empty primary
  result.
\<close>

theorem run_ocr_english_no_retry_counterexample:
  "run_paddle_ocr two_lang_env (Some ()) (paddle_lang ''eng'') = ([], 0)
   \<and> run_paddle_ocr_multi_lang two_lang_env (Some ()) None = (ustr ''abc'', 9/10)
   \<and> run_ocr two_lang_env (Some ()) ''eng'' = ([], 0)"
  by (simp add: run_ocr_def paddle_lang_eng two_lang_primary_en two_lang_multi)

text \<open>
  C2, amended. When the primary attempt returns empty or white-space text,
  \<open>run_ocr\<close> returns the result of the fallback over the default list of profiles
  if the primary profile is the multilingual one; for the English-only and the
  Hindi-only profile it returns the primary result without a retry.
\<close>

theorem run_ocr_fallback_only_multilingual:
  assumes "run_paddle_ocr E (Some img) (paddle_lang langs) = (text, conf)"
    and "text = [] \<or> py_strip text = []"
  shows "run_ocr E (Some img) langs =
           (if paddle_lang langs = ''multilingual''
            then run_paddle_ocr_multi_lang E (Some img) None
            else (text, conf))"
  using assms by (simp add: run_ocr_def)

theorem run_ocr_fallback_only_multilingual_witness:
  "run_paddle_ocr multilingual_empty_env (Some ()) (paddle_lang ''eng+hin'') = ([], 0)
   \<and> run_ocr multilingual_empty_env (Some ()) ''eng+hin'' = (ustr ''abc'', 9/10)"
proof -
  have h1: "run_paddle_ocr multilingual_empty_env (Some ()) (paddle_lang ''eng+hin'') = ([], 0)"
    by (simp add: paddle_lang_eng_hin multilingual_empty_primary)
  have h2: "([]::pystr) = [] \<or> py_strip [] = []" by simp
  show ?thesis
    using h1 run_ocr_fallback_only_multilingual [OF h1 h2]
    by (simp add: paddle_lang_eng_hin multilingual_empty_multi)
qed

section \<open>The capture backend chain\<close>

text \<open>
  C1, as stated, fails. With MSS unavailable, dxcam succeeding with image 7 and Qt
  failing, the first success of the three backends is image 7, yet \<open>capture_region\<close>
  calls Qt after dxcam has succeeded and returns \<open>None\<close>. With a width of 0 it
  returns \<open>None\<close> before any backend is called, although dxcam would succeed.
\<close>

theorem capture_region_dxcam_counterexample:
  "try_mss_capture dxcam_only_env 10 10 100 50 = None
   \<and> try_dxcam_capture dxcam_only_env 10 10 100 50 0 1 = Some 7
   \<and> first_success [try_mss_capture dxcam_only_env 10 10 100 50,
                     try_dxcam_capture dxcam_only_env 10 10 100 50 0 1,
                     try_qt_capture 10 10 100 50
                       \<lparr>geometry = full_hd, devicePixelRatio = 1, grabWindow = (\<lambda>x y w h. None)\<rparr>
                       full_hd]
       = Some 7
   \<and> capture_region dxcam_only_env 10 10 100 50 = (None, [MSS, DXCAM, QT])
   \<and> try_dxcam_capture dxcam_only_env 10 10 0 50 0 1 = Some 7
   \<and> capture_region dxcam_only_env 10 10 0 50 = (None, [])"
  by (simp add: capture_region_def test_point_detection_def try_mss_capture_def
      try_dxcam_capture_def try_qt_capture_def dxcam_only_env_def full_hd_def qrect_isNull_def
      qrect_x_def qrect_y_def qrect_width_def qrect_height_def Let_def)

text \<open>
  C1, amended. For a request with positive width and height whose point lies on a
  screen, \<open>capture_region\<close> returns the first success of the MSS backend and the Qt
  backend, in this order; when MSS succeeds no other backend is called; the result
  of the dxcam backend is never returned; and \<open>None\<close> is returned exactly when MSS
  and Qt have both failed. For a width or height that is not positive, and when no
  screen with a geometry is found for the point, it returns \<open>None\<close> and no backend
  is called.
\<close>

theorem capture_region_mss_then_qt:
  "(w \<le> 0 \<or> h \<le> 0
      \<or> (\<forall>idx scr geo. test_point_detection E x y = Some (idx, scr, geo) \<longrightarrow> qrect_isNull geo)
     \<longrightarrow> capture_region E x y w h = (None, []))
   \<and> (0 < w \<and> 0 < h \<and> test_point_detection E x y = Some (idx, scr, geo) \<and> \<not> qrect_isNull geo
     \<longrightarrow> fst (capture_region E x y w h)
           = first_success [try_mss_capture E x y w h, try_qt_capture x y w h scr geo]
         \<and> (try_mss_capture E x y w h \<noteq> None \<longrightarrow> snd (capture_region E x y w h) = [MSS])
         \<and> (fst (capture_region E x y w h) = None \<longleftrightarrow>
              try_mss_capture E x y w h = None \<and> try_qt_capture x y w h scr geo = None))"
proof (intro conjI impI)
  assume g: "w \<le> 0 \<or> h \<le> 0
      \<or> (\<forall>idx scr geo. test_point_detection E x y = Some (idx, scr, geo) \<longrightarrow> qrect_isNull geo)"
  show "capture_region E x y w h = (None, [])"
  proof (cases "w \<le> 0 \<or> h \<le> 0")
    case True
    then show ?thesis by (simp add: capture_region_def)
  next
    case False
    with g have n: "\<forall>idx scr geo. test_point_detection E x y = Some (idx, scr, geo) \<longrightarrow> qrect_isNull geo"
      by simp
    show ?thesis
    proof (cases "test_point_detection E x y")
      case None
      then show ?thesis by (simp add: capture_region_def)
    next
      case (Some t)
      obtain i s g' where t: "t = (i, s, g')" by (cases t)
      with Some n have "qrect_isNull g'" by simp
      with Some t show ?thesis by (simp add: capture_region_def)
    qed
  qed
next
  assume v: "0 < w \<and> 0 < h \<and> test_point_detection E x y = Some (idx, scr, geo) \<and> \<not> qrect_isNull geo"
  then show "fst (capture_region E x y w h)
           = first_success [try_mss_capture E x y w h, try_qt_capture x y w h scr geo]"
    by (auto simp: capture_region_def Let_def split: option.splits)
  from v show "snd (capture_region E x y w h) = [MSS]" if "try_mss_capture E x y w h \<noteq> None"
    using that by (auto simp: capture_region_def Let_def split: option.splits)
  from v show "(fst (capture_region E x y w h) = None) =
        (try_mss_capture E x y w h = None \<and> try_qt_capture x y w h scr geo = None)"
    by (auto simp: capture_region_def Let_def split: option.splits)
qed

text \<open>
  At a request of 100 by 50 on a display where only Qt delivers, the Qt image is
  returned; at a width of 0, and on a display with no screen at the point, nothing
  is returned and no backend is called.
\<close>

theorem capture_region_mss_then_qt_witness:
  "(0::int) < 100 \<and> (0::int) < 50
   \<and> test_point_detection qt_only_env 10 10
        = Some (0, \<lparr>geometry = full_hd, devicePixelRatio = 1, grabWindow = (\<lambda>x y w h. Some 3)\<rparr>,
                full_hd)
   \<and> \<not> qrect_isNull full_hd
   \<and> fst (capture_region qt_only_env 10 10 100 50) = Some 3
   \<and> capture_region qt_only_env 10 10 0 50 = (None, [])
   \<and> test_point_detection no_screen_env 10 10 = None
   \<and> capture_region no_screen_env 10 10 100 50 = (None, [])"
proof -
  have h1: "(0::int) < 100" and h2: "(0::int) < 50" by simp_all
  have h3: "test_point_detection qt_only_env 10 10
        = Some (0, \<lparr>geometry = full_hd, devicePixelRatio = 1, grabWindow = (\<lambda>x y w h. Some 3)\<rparr>,
                full_hd)"
    by (simp add: test_point_detection_def qt_only_env_def)
  have h4: "\<not> qrect_isNull full_hd" by (simp add: qrect_isNull_def full_hd_def)
  have m: "try_mss_capture qt_only_env 10 10 100 50 = None"
    by (simp add: try_mss_capture_def qt_only_env_def)
  have q: "try_qt_capture 10 10 100 50
       \<lparr>geometry = full_hd, devicePixelRatio = 1, grabWindow = (\<lambda>x y w h. Some (3::nat))\<rparr>
       full_hd = Some 3"
    by (simp add: try_qt_capture_def full_hd_def qrect_x_def qrect_y_def qrect_width_def
        qrect_height_def Let_def)
  have a: "fst (capture_region qt_only_env 10 10 100 50) = Some 3"
    using h1 h2 h3 h4
      capture_region_mss_then_qt [of 100 50 qt_only_env 10 10 0
        "\<lparr>geometry = full_hd, devicePixelRatio = 1, grabWindow = (\<lambda>x y w h. Some 3)\<rparr>" full_hd]
    by (simp add: m q)
  have b: "capture_region qt_only_env 10 10 0 50 = (None, [])"
    using capture_region_mss_then_qt [of 0 50 qt_only_env 10 10] by simp
  have h5: "test_point_detection no_screen_env 10 10 = None"
    by (simp add: test_point_detection_def no_screen_env_def)
  have c: "capture_region no_screen_env 10 10 100 50 = (None, [])"
    using h5 capture_region_mss_then_qt [of 100 50 no_screen_env 10 10] by simp
  from h1 h2 h3 h4 a b h5 c show ?thesis by blast
qed

text \<open>
  C6. When the global MSS grab returns a screenshot whose size differs from the
  requested \<open>(w, h)\<close>, the MSS backend returns the image built from that screenshot
  and \<open>capture_region\<close> returns it, with no other backend called.
\<close>

theorem mss_size_mismatch_accepted:
  assumes "0 < w" and "0 < h"
    and "test_point_detection E x y = Some (idx, scr, geo)"
    and "\<not> qrect_isNull geo"
    and "mss E = MssOpen sct"
    and "grab sct (mss_global_region x y w h) = GrabShot sct_img"
    and "ss_size sct_img \<noteq> (w, h)"
    and "frombytes E sct_img = Some img"
  shows "try_mss_capture E x y w h = Some img
         \<and> capture_region E x y w h = (Some img, [MSS])"
proof -
  have g: "mss_global_grab E sct x y w h = Some img"
    using assms(6,8) by (simp add: mss_global_grab_def Let_def)
  have m: "try_mss_capture E x y w h = Some img"
    using assms(5) g by (simp add: try_mss_capture_def)
  show ?thesis
    using assms(1-4) m by (simp add: capture_region_def Let_def)
qed

theorem mss_size_mismatch_accepted_witness:
  "(0::int) < 100 \<and> (0::int) < 50
   \<and> test_point_detection scaling_env 10 10
        = Some (0, \<lparr>geometry = full_hd, devicePixelRatio = 3/2, grabWindow = (\<lambda>x y w h. None)\<rparr>,
                full_hd)
   \<and> \<not> qrect_isNull full_hd
   \<and> mss scaling_env = MssOpen scaling_session
   \<and> grab scaling_session (mss_global_region 10 10 100 50) = GrabShot scaled_shot
   \<and> ss_size scaled_shot \<noteq> (100, 50)
   \<and> frombytes scaling_env scaled_shot = Some scaled_shot
   \<and> capture_region scaling_env 10 10 100 50 = (Some scaled_shot, [MSS])"
proof -
  have h1: "(0::int) < 100" and h2: "(0::int) < 50" by simp_all
  have h3: "test_point_detection scaling_env 10 10
        = Some (0, \<lparr>geometry = full_hd, devicePixelRatio = 3/2, grabWindow = (\<lambda>x y w h. None)\<rparr>,
                full_hd)"
    by (simp add: test_point_detection_def scaling_env_def)
  have h4: "\<not> qrect_isNull full_hd" by (simp add: qrect_isNull_def full_hd_def)
  have h5: "mss scaling_env = MssOpen scaling_session" by (simp add: scaling_env_def)
  have h6: "grab scaling_session (mss_global_region 10 10 100 50) = GrabShot scaled_shot"
    by (simp add: scaling_session_def)
  have h7: "ss_size scaled_shot \<noteq> (100, 50)" by (simp add: scaled_shot_def)
  have h8: "frombytes scaling_env scaled_shot = Some scaled_shot" by (simp add: scaling_env_def)
  show ?thesis
    using h1 h2 h3 h4 h5 h6 h7 h8 mss_size_mismatch_accepted [OF h1 h2 h3 h4 h5 h6 h7 h8]
    by simp
qed

text \<open>
  C10. For every integer request and every monitor, the region of the per-monitor
  fallback grab is the region of the global grab: adding the monitor's origin to the
  monitor-relative offset gives back \<open>x\<close> and \<open>y\<close>. For positive \<open>w\<close> and \<open>h\<close> it is
  the rectangle \<open>(x, y, w, h)\<close> itself.
\<close>

theorem mss_fallback_region_is_global:
  "mss_capture_region mon x y w h = mss_global_region x y w h
   \<and> (0 < w \<and> 0 < h \<longrightarrow>
        mss_capture_region mon x y w h = \<lparr>r_left = x, r_top = y, r_width = w, r_height = h\<rparr>)"
  by (simp add: mss_capture_region_def mss_global_region_def Let_def max_def)

theorem mss_fallback_region_is_global_witness:
  "(0::int) < 300 \<and> (0::int) < 200
   \<and> mss_capture_region \<lparr>r_left = 1920, r_top = 0, r_width = 1920, r_height = 1080\<rparr> 2000 50 300 200
       = mss_global_region 2000 50 300 200
   \<and> mss_capture_region \<lparr>r_left = 1920, r_top = 0, r_width = 1920, r_height = 1080\<rparr> 2000 50 300 200
       = \<lparr>r_left = 2000, r_top = 50, r_width = 300, r_height = 200\<rparr>"
proof -
  have h: "(0::int) < 300 \<and> (0::int) < 200" by simp
  show ?thesis
    using h mss_fallback_region_is_global
      [of "\<lparr>r_left = 1920, r_top = 0, r_width = 1920, r_height = 1080\<rparr>" 2000 50 300 200]
    by blast
qed

section \<open>The selection overlay\<close>

text \<open>
  C8. When the normalized rectangle of a drag is less than 10 units wide or less
  than 10 units high, \<open>mouseReleaseEvent\<close> schedules no call of
  \<open>on_selection_made\<close>, whatever the button and the state of the overlay; the
  capture pipeline is entered only through that call.
\<close>

theorem small_selection_not_forwarded:
  assumes "qrect_width (normalized (QRect (start_global ov) (end_global ov))) < 10
           \<or> qrect_height (normalized (QRect (start_global ov) (end_global ov))) < 10"
  shows "scheduled (mouseReleaseEvent normalized ov button) = scheduled ov"
  using assms by (auto simp: mouseReleaseEvent_def Let_def)

theorem small_selection_not_forwarded_witness:
  "(qrect_width (id (QRect (start_global small_drag) (end_global small_drag))) < 10
      \<or> qrect_height (id (QRect (start_global small_drag) (end_global small_drag))) < 10)
   \<and> scheduled (mouseReleaseEvent id small_drag LeftButton) = []"
proof -
  have h: "qrect_width (id (QRect (start_global small_drag) (end_global small_drag))) < 10
      \<or> qrect_height (id (QRect (start_global small_drag) (end_global small_drag))) < 10"
    by (simp add: small_drag_def QRect_def qrect_width_def)
  show ?thesis
    using h small_selection_not_forwarded [of id small_drag LeftButton]
    by (simp add: small_drag_def)
qed

end
